theory Spec2Isabelle
  imports Complex_Main
begin

section \<open>Values of the JavaScript runtime\<close>

text \<open>
  Strings are lists of characters. A character stands for one code unit of the
  JavaScript string in the range 0 to 255, so the white space that \<open>trim\<close> removes is
  the white space of that range: tab, line feed, vertical tab, form feed, carriage
  return, space and the no-break space.

  Both handlers of the program read a caught value with
  \<^verbatim>\<open>error instanceof Error ? error.message : String(error)\<close>
  inside a template literal. A thrown value is an instance of \<open>Error\<close> that carries its
  message, or another value that carries what \<open>String(error)\<close> makes of it, or a value
  that cannot be read this way: an object without a conversion to a string, say
  \<open>Object.create(null)\<close>, for which the handler's own expression throws. Such a value
  carries what reading it throws.
\<close>

datatype thrown = JsError string | JsValue string | JsUnreadable thrown

fun readThrown :: "thrown \<Rightarrow> thrown + string" where
  "readThrown (JsError message) = Inr message"
| "readThrown (JsValue rendered) = Inr rendered"
| "readThrown (JsUnreadable raised) = Inl raised"

text \<open>
  A number as far as the loop over the iterations reads it: a finite value, one of the
  infinities (JSON's \<open>1e999\<close> parses to \<open>Infinity\<close>) or \<open>NaN\<close>. \<open>falsyNumber\<close> is the test
  of \<open>maxIterations || 1\<close>, \<open>below i m\<close> the test \<open>i < m\<close> for a counter \<open>i\<close>.
\<close>

datatype number = Num rat | PosInfinity | NegInfinity | NotANumber

fun falsyNumber :: "number \<Rightarrow> bool" where
  "falsyNumber (Num q) = (q = 0)"
| "falsyNumber PosInfinity = False"
| "falsyNumber NegInfinity = False"
| "falsyNumber NotANumber = True"

fun below :: "nat \<Rightarrow> number \<Rightarrow> bool" where
  "below i (Num q) = (of_nat i < q)"
| "below i PosInfinity = True"
| "below i NegInfinity = False"
| "below i NotANumber = False"

definition is_space :: "char \<Rightarrow> bool" where
  "is_space c = (c = CHR 0x09 \<or> c = CHR 0x0A \<or> c = CHR 0x0B \<or> c = CHR 0x0C
     \<or> c = CHR 0x0D \<or> c = CHR 0x20 \<or> c = CHR 0xA0)"

definition trim :: "string \<Rightarrow> string" where
  "trim s = rev (dropWhile is_space (rev (dropWhile is_space s)))"

definition startsWith :: "string \<Rightarrow> string \<Rightarrow> bool" where
  "startsWith s p = (take (length p) s = p)"

definition endsWith :: "string \<Rightarrow> string \<Rightarrow> bool" where
  "endsWith s p = (length p \<le> length s \<and> drop (length s - length p) s = p)"

text \<open>
  \<open>split_first p s\<close> finds the first occurrence of \<open>p\<close> in \<open>s\<close>, as \<open>indexOf\<close> does,
  and returns what stands before it and what stands after it.
\<close>

fun split_first :: "string \<Rightarrow> string \<Rightarrow> (string \<times> string) option" where
  "split_first p [] = (if p = [] then Some ([], []) else None)"
| "split_first p (c # cs) =
     (if take (length p) (c # cs) = p then Some ([], drop (length p) (c # cs))
      else (case split_first p cs of
              None \<Rightarrow> None
            | Some (front, back) \<Rightarrow> Some (c # front, back)))"

definition includes_str :: "string \<Rightarrow> string \<Rightarrow> bool" where
  "includes_str s p = (split_first p s \<noteq> None)"

text \<open>
  \<open>String.prototype.replace\<close> with a string pattern replaces the first occurrence only,
  and it reads the replacement string as a template: \<open>$$\<close> stands for a dollar sign,
  \<open>$&\<close> for the matched text, \<open>$`\<close> for the text before the match and \<open>$'\<close> for the
  text after it. A string pattern has no capture groups, so \<open>$1\<close> and \<open>$<\<close> stay as
  they are, as does a dollar sign before any other character.
\<close>

fun getSubstitution :: "string \<Rightarrow> string \<Rightarrow> string \<Rightarrow> string \<Rightarrow> string" where
  "getSubstitution matched front back [] = []"
| "getSubstitution matched front back [c] = [c]"
| "getSubstitution matched front back (c # d # rest) =
     (if c = CHR ''$'' \<and> d = CHR ''$'' then CHR ''$'' # getSubstitution matched front back rest
      else if c = CHR ''$'' \<and> d = CHR ''&'' then matched @ getSubstitution matched front back rest
      else if c = CHR ''$'' \<and> d = CHR 0x60 then front @ getSubstitution matched front back rest
      else if c = CHR ''$'' \<and> d = CHR 0x27 then back @ getSubstitution matched front back rest
      else c # getSubstitution matched front back (d # rest))"

definition replace :: "string \<Rightarrow> string \<Rightarrow> string \<Rightarrow> string" where
  "replace s pattern replacement =
     (case split_first pattern s of
        None \<Rightarrow> s
      | Some (front, back) \<Rightarrow>
          front @ getSubstitution pattern front back replacement @ back)"

fun join :: "string \<Rightarrow> string list \<Rightarrow> string" where
  "join sep [] = []"
| "join sep [x] = x"
| "join sep (x # y # rest) = x @ sep @ join sep (y # rest)"

text \<open>The decimal numeral of a natural number, as a template literal prints it.\<close>

fun decimal :: "nat \<Rightarrow> string" where
  "decimal n =
     (if n < 10 then [''0123456789'' ! n]
      else decimal (n div 10) @ [''0123456789'' ! (n mod 10)])"

text \<open>
  An optional string is truthy when it is present and not empty: the test behind
  \<open>a || b\<close> and \<open>filter(r => r.error)\<close>.
\<close>

fun truthy :: "string option \<Rightarrow> bool" where
  "truthy None = False"
| "truthy (Some s) = (s \<noteq> [])"

section \<open>Type definitions for the MOA architecture\<close>

record OllamaInstance =
  uri :: string
  name :: "string option"
  priority :: "int option"

text \<open>
  The numbers of JavaScript are kept abstract as the type \<open>'n\<close>; what the program does
  with them is in the environment below. Fields of the same name in two interfaces are
  told apart by the name of the record (\<open>Agent.name\<close>, \<open>Layer.name\<close>); the field \<open>method\<close>
  of a strategy is written \<open>method'\<close>, the plain word being a keyword of Isabelle. The objects of a layer's \<open>agents\<close> come from the
  JSON configuration and \<open>processLayer\<close> hands them to \<open>runModel\<close> whole (by a spread),
  so an \<open>instanceUri\<close> written in the configuration reaches \<open>runModel\<close>: the agents of a
  layer are modelled with that field.
\<close>

record 'n Agent =
  name :: string
  model :: string
  temperature :: "'n option"
  promptTemplate :: string
  systemPrompt :: "string option"

record 'n AgentConfig = "'n Agent" +
  instanceUri :: "string option"

record 'n AggregationStrategy =
  method' :: string
  promptTemplate :: "string option"
  weights :: "'n list option"

record 'n Layer =
  name :: string
  agents :: "'n AgentConfig list"
  aggregationStrategy :: "'n AggregationStrategy"

text \<open>The one metadata object the program builds is that of the final response.\<close>

record Metadata =
  iterations :: "number option"
  totalResponses :: nat
  finalResponseLength :: nat

record ModelResponse =
  content :: string
  metadata :: "Metadata option"
  error :: "string option"

record QueryContext =
  originalQuery :: string
  timestamp :: string
  currentIteration :: nat

text \<open>
  \<open>maxIterations\<close> is a number, or absent; \<open>stopCriteria\<close> is a function of the caller,
  which returns a truth value or throws.
\<close>

record 'n MOAConfig =
  layers :: "'n Layer list"
  maxIterations :: "number option"
  stopCriteria :: "(ModelResponse list \<Rightarrow> thrown + bool) option"

section \<open>The environment\<close>

text \<open>
  A parsed document is the list of the document's children; a well-formed one holds one
  element. \<open>Text\<close> stands for text and CDATA sections, \<open>Comment\<close> for comments and
  processing instructions.
\<close>

datatype node = Element string "node list" | Text string | Comment string

text \<open>
  The two command lines of \<open>runModel\<close>:
  \<^verbatim>\<open>OLLAMA_HOST=<uri> ollama run <model> "<prompt>"\<close> and
  \<^verbatim>\<open>llm -m <model> "<prompt>"\<close>.
\<close>

datatype command = OllamaRun string string string | LlmRun string string

text \<open>
  Everything outside the program is a parameter: the constants read from the process
  environment, the working directory, the file system, the XML parser, the shell, the
  clock and the arithmetic of numbers. The state of the outside world has the type
  \<open>'w\<close>; a shell command reads and changes it, and returns the standard output or throws.
  \<open>reciprocal n\<close> is the number \<open>1 / n\<close>, \<open>NaN\<close> is what \<open>undefined\<close> converts to.
  When several promises of a layer are rejected, \<open>Promise.all\<close> reports the rejection that
  comes first in time, which the order of the engine's jobs and the timing of the
  commands decide; \<open>raceWinner\<close> tells which of them that is, counted among the
  rejections in the order of the agents. Every property below holds for every
  \<open>raceWinner\<close>.
\<close>

record ('n, 'w) env =
  ollamaInstances :: "OllamaInstance list"
  SYNTHESIS_MODEL :: string
  cwd :: string
  existsSync :: "'w \<Rightarrow> string \<Rightarrow> bool"
  statSize :: "'w \<Rightarrow> string \<Rightarrow> nat"
  readFileSync :: "'w \<Rightarrow> string \<Rightarrow> thrown + string"
  parseFromString :: "string \<Rightarrow> thrown + node list"
  shell :: "'w \<Rightarrow> command \<Rightarrow> (thrown + string) \<times> 'w"
  now :: "'w \<Rightarrow> string"
  raceWinner :: "'w \<Rightarrow> nat"
  toNumber :: "string \<Rightarrow> 'n"
  multiply :: "'n \<Rightarrow> 'n \<Rightarrow> 'n"
  reciprocal :: "nat \<Rightarrow> 'n"
  NaN :: 'n
  numberToString :: "'n \<Rightarrow> string"

text \<open>The state the program itself changes is the cursor of the instance selection.\<close>

record 'w state =
  currentInstanceIndex :: nat
  world :: 'w

section \<open>Round-robin instance selection\<close>

text \<open>
  \<open>ollamaInstances\<close> is fixed when the module is loaded; \<open>currentInstanceIndex\<close> is the one
  variable that \<open>getNextInstance\<close> writes. The function returns the instance and the new
  state. Reading an array beyond its end gives \<open>undefined\<close> in JavaScript, which is
  \<open>None\<close> here.
\<close>

definition getNextInstance :: "('n, 'w) env \<Rightarrow> 'w state \<Rightarrow> OllamaInstance option \<times> 'w state" where
  "getNextInstance env s =
     (if length (ollamaInstances env) = 0
      then (Some \<lparr>uri = ''http://localhost:11434'', OllamaInstance.name = None, priority = None\<rparr>, s)
      else ((if currentInstanceIndex s < length (ollamaInstances env)
             then Some (ollamaInstances env ! currentInstanceIndex s) else None),
            s\<lparr>currentInstanceIndex := (currentInstanceIndex s + 1) mod length (ollamaInstances env)\<rparr>))"

text \<open>
  \<open>calls env s n\<close> is the state after \<open>n\<close> calls from the state \<open>s\<close>, and
  \<open>nth_call env s n\<close> is what call number \<open>n\<close> (counted from 1) returns.
\<close>

fun calls :: "('n, 'w) env \<Rightarrow> 'w state \<Rightarrow> nat \<Rightarrow> 'w state" where
  "calls env s 0 = s"
| "calls env s (Suc n) = snd (getNextInstance env (calls env s n))"

definition nth_call :: "('n, 'w) env \<Rightarrow> 'w state \<Rightarrow> nat \<Rightarrow> OllamaInstance option" where
  "nth_call env s n = fst (getNextInstance env (calls env s (n - 1)))"

section \<open>XML prompt parsing\<close>

text \<open>
  \<open>path.resolve\<close> of Node on a POSIX system, for one argument: a relative path is put
  after the working directory, then the path is cut at the slashes, empty segments and
  \<open>.\<close> are dropped, \<open>..\<close> removes the segment before it (and nothing at the root), and
  the segments are joined again behind a leading slash.
\<close>

fun split_on :: "char \<Rightarrow> string \<Rightarrow> string list" where
  "split_on sep [] = [[]]"
| "split_on sep (c # cs) =
     (if c = sep then [] # split_on sep cs
      else (case split_on sep cs of
              [] \<Rightarrow> [[c]]
            | seg # segs \<Rightarrow> (c # seg) # segs))"

fun normalizeSegments :: "string list \<Rightarrow> string list \<Rightarrow> string list" where
  "normalizeSegments kept [] = rev kept"
| "normalizeSegments kept (seg # segs) =
     (if seg = [] \<or> seg = ''.'' then normalizeSegments kept segs
      else if seg = ''..'' then normalizeSegments (tl kept) segs
      else normalizeSegments (seg # kept) segs)"

definition segments :: "string \<Rightarrow> string list" where
  "segments p = normalizeSegments [] (split_on CHR ''/'' p)"

definition path_resolve :: "string \<Rightarrow> string \<Rightarrow> string" where
  "path_resolve dir p =
     ''/'' @ join ''/'' (segments (if startsWith p ''/'' then p else dir @ ''/'' @ p))"

text \<open>
  \<open>getElementsByTagName\<close> lists the elements of that name in document order;
  \<open>textContent\<close> of an element is the text of its descendants, comments left out.
\<close>

fun getElementsByTagName :: "string \<Rightarrow> node list \<Rightarrow> node list" where
  "getElementsByTagName tag [] = []"
| "getElementsByTagName tag (Element n kids # rest) =
     (if n = tag then [Element n kids] else [])
       @ getElementsByTagName tag kids @ getElementsByTagName tag rest"
| "getElementsByTagName tag (Text txt # rest) = getElementsByTagName tag rest"
| "getElementsByTagName tag (Comment txt # rest) = getElementsByTagName tag rest"

fun descendantText :: "node list \<Rightarrow> string" where
  "descendantText [] = []"
| "descendantText (Element n kids # rest) = descendantText kids @ descendantText rest"
| "descendantText (Text txt # rest) = txt @ descendantText rest"
| "descendantText (Comment txt # rest) = descendantText rest"

fun textContent :: "node \<Rightarrow> string" where
  "textContent (Element n kids) = descendantText kids"
| "textContent (Text txt) = txt"
| "textContent (Comment txt) = txt"

record XMLPrompt =
  systemPrompt :: "string option"
  template :: string

definition readXMLPrompt :: "('n, 'w) env \<Rightarrow> 'w \<Rightarrow> string \<Rightarrow> thrown + XMLPrompt" where
  "readXMLPrompt env w promptFile =
     (let resolvedPath = path_resolve (cwd env) promptFile in
      if \<not> includes_str resolvedPath (cwd env)
      then Inl (JsError ''File path must be within current working directory'')
      else if \<not> existsSync env w resolvedPath
      then Inl (JsError (''Prompt file not found: '' @ promptFile))
      else if statSize env w resolvedPath > 1024 * 1024
      then Inl (JsError (''Prompt file too large: '' @ decimal (statSize env w resolvedPath)
                  @ '' bytes (max '' @ decimal (1024 * 1024) @ '' bytes)''))
      else
        (case readFileSync env w resolvedPath of
           Inl e \<Rightarrow> Inl e
         | Inr fileContent \<Rightarrow>
             (case parseFromString env fileContent of
                Inl e \<Rightarrow> Inl e
              | Inr doc \<Rightarrow>
                  (case getElementsByTagName ''prompt'' doc of
                     [] \<Rightarrow> Inl (JsError ''Invalid XML: missing root <prompt> element'')
                   | promptElement # others \<Rightarrow>
                       (case getElementsByTagName ''template'' doc of
                          [] \<Rightarrow> Inl (JsError ''Invalid XML: missing <template> element'')
                        | templateElement # templates \<Rightarrow>
                            Inr \<lparr>XMLPrompt.systemPrompt =
                                   (case getElementsByTagName ''system'' doc of
                                      [] \<Rightarrow> None
                                    | systemElement # systems \<Rightarrow>
                                        Some (trim (textContent systemElement))),
                                 template =
                                   (if trim (textContent templateElement) = [] then []
                                    else trim (textContent templateElement))\<rparr>)))))"

section \<open>Calling a model\<close>

text \<open>
  The text of the \<open>TypeError\<close> that reading a property of \<open>undefined\<close> throws is the
  engine's own.
\<close>

definition undefinedProperty :: thrown where
  "undefinedProperty = JsError ''undefined is not an object''"

text \<open>The body of the \<open>try\<close> block of \<open>runModel\<close>.\<close>

definition runModel_try ::
  "('n, 'w) env \<Rightarrow> 'n AgentConfig \<Rightarrow> string \<Rightarrow> 'w state \<Rightarrow> (thrown + ModelResponse) \<times> 'w state" where
  "runModel_try env agent prompt s =
     (let fromSelector =
            (case getNextInstance env s of
               (None, s1) \<Rightarrow> (Inl undefinedProperty, s1)
             | (Some inst, s1) \<Rightarrow> (Inr (uri inst), s1))
      in
      case (case instanceUri agent of
              Some u \<Rightarrow> if u \<noteq> [] then (Inr u, s) else fromSelector
            | None \<Rightarrow> fromSelector) of
        (Inl e, s1) \<Rightarrow> (Inl e, s1)
      | (Inr instanceUri', s1) \<Rightarrow>
          (case (if startsWith (model agent) ''ollama:''
                 then shell env (world s1)
                        (OllamaRun instanceUri' (replace (model agent) ''ollama:'' []) prompt)
                 else if startsWith (model agent) ''llm:''
                 then shell env (world s1) (LlmRun (replace (model agent) ''llm:'' []) prompt)
                 else (Inl (JsError (''Unsupported model prefix in: '' @ model agent)), world s1)) of
             (Inl e, w) \<Rightarrow> (Inl e, s1\<lparr>world := w\<rparr>)
           | (Inr output, w) \<Rightarrow>
               (if output = [] \<or> length (trim output) = 0
                then (Inl (JsError ''Model returned empty response''), s1\<lparr>world := w\<rparr>)
                else (Inr \<lparr>content = trim output, metadata = None, error = None\<rparr>,
                      s1\<lparr>world := w\<rparr>))))"

text \<open>
  The handler of \<open>runModel\<close> throws a new \<open>Error\<close> with the text of the caught value;
  where reading the caught value throws, that is what leaves the handler.
\<close>

definition runModel ::
  "('n, 'w) env \<Rightarrow> 'n AgentConfig \<Rightarrow> string \<Rightarrow> 'w state \<Rightarrow> (thrown + ModelResponse) \<times> 'w state" where
  "runModel env agent prompt s =
     (case runModel_try env agent prompt s of
        (Inl e, s1) \<Rightarrow>
          (case readThrown e of
             Inr txt \<Rightarrow>
               (Inl (JsError (''Error running model '' @ model agent @ '': '' @ txt)), s1)
           | Inl raised \<Rightarrow> (Inl raised, s1))
      | (Inr response, s1) \<Rightarrow> (Inr response, s1))"

section \<open>Processing a layer\<close>

definition contextualPrompt :: "string \<Rightarrow> string \<Rightarrow> ModelResponse list \<Rightarrow> string" where
  "contextualPrompt promptContent input previousResponses =
     replace (replace promptContent ''{input}'' input)
       ''{previous_responses}'' (join ''\<newline>'' (map content previousResponses))"

text \<open>
  \<open>processLayer\<close> maps an asynchronous callback over the agents of the layer and waits
  for all of them. The callbacks start in the order of the agents, and each runs up to
  its first \<open>await\<close> before the next one starts. A callback first takes an instance
  from the selection. An agent whose template is not an \<open>.xml\<close> reference then goes
  straight into \<open>runModel\<close>, which takes its instance and issues its command; an agent
  with an \<open>.xml\<close> reference reads the document (\<open>readXMLPrompt\<close> has no \<open>await\<close> of its
  own) and then waits.
\<close>

datatype pending = Settled "thrown + ModelResponse" | Awaiting "thrown + XMLPrompt"

definition startAgent ::
  "('n, 'w) env \<Rightarrow> string \<Rightarrow> ModelResponse list \<Rightarrow> 'n AgentConfig \<Rightarrow> 'w state
     \<Rightarrow> pending \<times> 'w state" where
  "startAgent env input previousResponses agent s =
     (case getNextInstance env s of
        (None, s1) \<Rightarrow> (Settled (Inl undefinedProperty), s1)
      | (Some inst, s1) \<Rightarrow>
          if endsWith (Agent.promptTemplate agent) ''.xml''
          then (Awaiting (readXMLPrompt env (world s1) (Agent.promptTemplate agent)), s1)
          else (case runModel env
                       (agent\<lparr>Agent.promptTemplate :=
                                contextualPrompt (Agent.promptTemplate agent) input previousResponses,
                              Agent.systemPrompt := Agent.systemPrompt agent\<rparr>)
                       (contextualPrompt (Agent.promptTemplate agent) input previousResponses) s1 of
                  (result, s2) \<Rightarrow> (Settled result, s2)))"

text \<open>
  The callbacks that wait go on, in the order of the agents, once all have started: a
  rejected \<open>readXMLPrompt\<close> ends the callback, a resolved one gives the template and the
  system prompt for \<open>runModel\<close>.
\<close>

definition resumeAgent ::
  "('n, 'w) env \<Rightarrow> string \<Rightarrow> ModelResponse list \<Rightarrow> 'n AgentConfig \<Rightarrow> pending \<Rightarrow> 'w state
     \<Rightarrow> (thrown + ModelResponse) \<times> 'w state" where
  "resumeAgent env input previousResponses agent p s =
     (case p of
        Settled result \<Rightarrow> (result, s)
      | Awaiting (Inl e) \<Rightarrow> (Inl e, s)
      | Awaiting (Inr xmlPrompt) \<Rightarrow>
          runModel env
            (agent\<lparr>Agent.promptTemplate :=
                     contextualPrompt (template xmlPrompt) input previousResponses,
                   Agent.systemPrompt :=
                     (if truthy (XMLPrompt.systemPrompt xmlPrompt)
                      then XMLPrompt.systemPrompt xmlPrompt
                      else Agent.systemPrompt agent)\<rparr>)
            (contextualPrompt (template xmlPrompt) input previousResponses) s)"

fun startAgents ::
  "('n, 'w) env \<Rightarrow> string \<Rightarrow> ModelResponse list \<Rightarrow> 'n AgentConfig list \<Rightarrow> 'w state
     \<Rightarrow> ('n AgentConfig \<times> pending) list \<times> 'w state" where
  "startAgents env input previousResponses [] s = ([], s)"
| "startAgents env input previousResponses (agent # rest) s =
     (case startAgent env input previousResponses agent s of
        (p, s1) \<Rightarrow>
          (case startAgents env input previousResponses rest s1 of
             (ps, s2) \<Rightarrow> ((agent, p) # ps, s2)))"

fun resumeAgents ::
  "('n, 'w) env \<Rightarrow> string \<Rightarrow> ModelResponse list \<Rightarrow> ('n AgentConfig \<times> pending) list \<Rightarrow> 'w state
     \<Rightarrow> (thrown + ModelResponse) list \<times> 'w state" where
  "resumeAgents env input previousResponses [] s = ([], s)"
| "resumeAgents env input previousResponses ((agent, p) # rest) s =
     (case resumeAgent env input previousResponses agent p s of
        (result, s1) \<Rightarrow>
          (case resumeAgents env input previousResponses rest s1 of
             (results, s2) \<Rightarrow> (result # results, s2)))"

text \<open>
  \<open>Promise.all\<close> gives the results in the order of the agents when every promise is
  fulfilled, and the rejection that comes first otherwise.
\<close>

fun rejections :: "(thrown + 'a) list \<Rightarrow> thrown list" where
  "rejections [] = []"
| "rejections (Inl e # rest) = e # rejections rest"
| "rejections (Inr r # rest) = rejections rest"

fun fulfilments :: "(thrown + 'a) list \<Rightarrow> 'a list" where
  "fulfilments [] = []"
| "fulfilments (Inl e # rest) = fulfilments rest"
| "fulfilments (Inr r # rest) = r # fulfilments rest"

definition promiseAll :: "('n, 'w) env \<Rightarrow> 'w \<Rightarrow> (thrown + 'a) list \<Rightarrow> thrown + 'a list" where
  "promiseAll env w results =
     (case rejections results of
        [] \<Rightarrow> Inr (fulfilments results)
      | e # es \<Rightarrow> Inl ((e # es) ! (raceWinner env w mod length (e # es))))"

text \<open>
  The commands of a layer run side by side in the program. Here a command acts on the
  world when it is issued, so the commands of a layer act in the order in which they
  are issued, and the state that \<open>processLayer\<close> returns is the state after all of them,
  also when \<open>Promise.all\<close> is rejected.
\<close>

definition processLayer ::
  "('n, 'w) env \<Rightarrow> 'n Layer \<Rightarrow> string \<Rightarrow> ModelResponse list \<Rightarrow> QueryContext \<Rightarrow> 'w state
     \<Rightarrow> (thrown + ModelResponse list) \<times> 'w state" where
  "processLayer env layer input previousResponses queryContext s =
     (case startAgents env input previousResponses (agents layer) s of
        (started, s1) \<Rightarrow>
          (case resumeAgents env input previousResponses started s1 of
             (results, s2) \<Rightarrow> (promiseAll env (world s2) results, s2)))"

section \<open>Aggregating the responses of a layer\<close>

definition DEFAULT_AGGREGATION_TEMPLATE :: string where
  "DEFAULT_AGGREGATION_TEMPLATE =
     ''\<newline>You are tasked with synthesizing multiple responses to create a comprehensive and accurate final answer.\<newline>''
     @ ''\<newline>Previous responses:\<newline>{{responses}}\<newline>''
     @ ''\<newline>Please analyze these responses and:\<newline>''
     @ ''1. Identify common themes and key points\<newline>''
     @ ''2. Note any contradictions or inconsistencies\<newline>''
     @ ''3. Synthesize a final response that:\<newline>''
     @ ''- Incorporates the best elements from each response\<newline>''
     @ ''- Resolves any contradictions\<newline>''
     @ ''- Provides a coherent and complete answer\<newline>''
     @ ''\<newline>Final synthesized response:''"

text \<open>The blocks \<^verbatim>\<open>Response ${i + 1}:\n${r.content}\<close>, \<open>i\<close> counting from the given index.\<close>

fun responseBlocks :: "nat \<Rightarrow> ModelResponse list \<Rightarrow> string list" where
  "responseBlocks i [] = []"
| "responseBlocks i (r # rs) =
     (''Response '' @ decimal (i + 1) @ '':\<newline>'' @ content r) # responseBlocks (i + 1) rs"

text \<open>
  The \<open>reduce\<close> of the weighted branch,
  \<^verbatim>\<open>reduce((acc, content, i) => acc + content * weights[i], "")\<close>.
  The accumulator starts as the empty string, so \<open>+\<close> has a string on its left at every
  step: it converts the product to a string and appends it. The product is taken of
  the numbers that the content and the weight convert to; a weight beyond the end of
  the array is \<open>undefined\<close> and converts to \<open>NaN\<close>.
\<close>

fun weightedReduce :: "('n, 'w) env \<Rightarrow> 'n list \<Rightarrow> nat \<Rightarrow> string \<Rightarrow> string list \<Rightarrow> string" where
  "weightedReduce env ws i acc [] = acc"
| "weightedReduce env ws i acc (c # cs) =
     weightedReduce env ws (i + 1)
       (acc @ numberToString env
                (multiply env (toNumber env c) (if i < length ws then ws ! i else NaN env)))
       cs"

text \<open>
  \<open>aggregateResponses\<close> returns its result, the strategy object as the call leaves it
  (the function assigns to \<open>strategy.promptTemplate\<close>) and the new state.
\<close>

definition aggregateResponses ::
  "('n, 'w) env \<Rightarrow> ModelResponse list \<Rightarrow> 'n AggregationStrategy \<Rightarrow> 'w state
     \<Rightarrow> (thrown + ModelResponse) \<times> 'n AggregationStrategy \<times> 'w state" where
  "aggregateResponses env responses strategy s =
     (if length responses = 0
      then (Inr \<lparr>content = [], metadata = None, error = Some ''No responses to aggregate''\<rparr>,
            strategy, s)
      else
        (case (case AggregationStrategy.promptTemplate strategy of
                 None \<Rightarrow> Inr strategy
               | Some reference \<Rightarrow>
                   if endsWith reference ''.xml''
                   then (case readXMLPrompt env (world s) reference of
                           Inl e \<Rightarrow> Inl e
                         | Inr xmlPrompt \<Rightarrow>
                             Inr (strategy\<lparr>AggregationStrategy.promptTemplate :=
                                              Some (template xmlPrompt)\<rparr>))
                   else Inr strategy) of
           Inl e \<Rightarrow> (Inl e, strategy, s)
         | Inr strategy' \<Rightarrow>
             if method' strategy' = ''synthesis'' then
               (let synthesisAgent =
                      \<lparr>Agent.name = ''synthesizer'', model = SYNTHESIS_MODEL env,
                       temperature = None,
                       Agent.promptTemplate =
                         (case AggregationStrategy.promptTemplate strategy' of
                            Some t \<Rightarrow> if t \<noteq> [] then t else DEFAULT_AGGREGATION_TEMPLATE
                          | None \<Rightarrow> DEFAULT_AGGREGATION_TEMPLATE),
                       Agent.systemPrompt = None, instanceUri = None\<rparr>;
                    synthesisPrompt =
                      replace (Agent.promptTemplate synthesisAgent) ''{responses}''
                        (join ''\<newline>\<newline>'' (responseBlocks 0 responses))
                in case runModel env synthesisAgent synthesisPrompt s of
                     (result, s1) \<Rightarrow> (result, strategy', s1))
             else if method' strategy' = ''weighted'' then
               (let weights' =
                      (case weights strategy' of
                         Some ws \<Rightarrow> ws
                       | None \<Rightarrow> map (\<lambda>r. reciprocal env (length responses)) responses)
                in (Inr \<lparr>content =
                           weightedReduce env weights' 0 [] (map (\<lambda>r. trim (content r)) responses),
                         metadata = None, error = None\<rparr>,
                    strategy', s))
             else if method' strategy' = ''voting'' then
               (case responses of
                  [] \<Rightarrow> (Inl undefinedProperty, strategy', s)
                | first # others \<Rightarrow>
                    (Inr \<lparr>content = content first, metadata = None, error = None\<rparr>,
                     strategy', s))
             else
               (Inr \<lparr>content = join ''\<newline>\<newline>'' (map (\<lambda>r. trim (content r)) responses),
                     metadata = None, error = None\<rparr>,
                strategy', s)))"

section \<open>The chain\<close>

text \<open>
  What a run of \<open>runMOAChain\<close> holds: the layers of the configuration object (whose
  strategies \<open>aggregateResponses\<close> writes), the local variables \<open>currentInput\<close>,
  \<open>allResponses\<close> and \<open>queryContext\<close>, and the state.
\<close>

record ('n, 'w) chain =
  configLayers :: "'n Layer list"
  currentInput :: string
  allResponses :: "ModelResponse list"
  queryContext :: QueryContext
  st :: "'w state"

text \<open>
  How a part of the \<open>try\<close> block ends: with a thrown value, with the \<open>return\<close> of the
  stop criteria, or by going on.
\<close>

datatype ('n, 'w) outcome =
  Thrown thrown "('n, 'w) chain"
| Returned ModelResponse "('n, 'w) chain"
| Continue "('n, 'w) chain"

text \<open>The responses of a layer that carry an error: \<^verbatim>\<open>layerResponses.filter(r => r.error)\<close>.\<close>

definition layerErrors :: "ModelResponse list \<Rightarrow> ModelResponse list" where
  "layerErrors layerResponses = filter (\<lambda>r. truthy (error r)) layerResponses"

text \<open>The body of the loop over the layers, for the layer at index \<open>i\<close>.\<close>

definition layerPass ::
  "('n, 'w) env \<Rightarrow> (ModelResponse list \<Rightarrow> thrown + bool) option \<Rightarrow> nat \<Rightarrow> nat
     \<Rightarrow> ('n, 'w) chain \<Rightarrow> ('n, 'w) outcome" where
  "layerPass env stop iteration i c =
     (let layer = configLayers c ! i;
          c0 = c\<lparr>queryContext := (queryContext c)\<lparr>currentIteration := iteration\<rparr>\<rparr>
      in
      case processLayer env layer (currentInput c0) (allResponses c0) (queryContext c0) (st c0) of
        (Inl e, s1) \<Rightarrow> Thrown e (c0\<lparr>st := s1\<rparr>)
      | (Inr layerResponses, s1) \<Rightarrow>
          (case layerErrors layerResponses of
             failed # others \<Rightarrow>
               Thrown (JsError (''Layer '' @ Layer.name layer @ '' execution failed: ''
                                 @ (case error failed of Some e \<Rightarrow> e | None \<Rightarrow> ''undefined'')))
                 (c0\<lparr>st := s1\<rparr>)
           | [] \<Rightarrow>
               (case aggregateResponses env layerResponses (aggregationStrategy layer) s1 of
                  (Inl e, strategy', s2) \<Rightarrow>
                    Thrown e
                      (c0\<lparr>configLayers :=
                            (configLayers c0)[i := layer\<lparr>aggregationStrategy := strategy'\<rparr>],
                          st := s2\<rparr>)
                | (Inr aggregated, strategy', s2) \<Rightarrow>
                    (let c1 = c0\<lparr>configLayers :=
                                   (configLayers c0)[i := layer\<lparr>aggregationStrategy := strategy'\<rparr>],
                                 allResponses := allResponses c0 @ [aggregated],
                                 currentInput := content aggregated,
                                 st := s2\<rparr>
                     in case stop of
                          None \<Rightarrow> Continue c1
                        | Some criteria \<Rightarrow>
                            (case criteria (allResponses c1) of
                               Inl e \<Rightarrow> Thrown e c1
                             | Inr True \<Rightarrow> Returned aggregated c1
                             | Inr False \<Rightarrow> Continue c1)))))"

text \<open>The loop over the layers, by the indices of the array.\<close>

fun layersLoop ::
  "('n, 'w) env \<Rightarrow> (ModelResponse list \<Rightarrow> thrown + bool) option \<Rightarrow> nat \<Rightarrow> nat list
     \<Rightarrow> ('n, 'w) chain \<Rightarrow> ('n, 'w) outcome" where
  "layersLoop env stop iteration [] c = Continue c"
| "layersLoop env stop iteration (i # rest) c =
     (case layerPass env stop iteration i c of
        Continue c1 \<Rightarrow> layersLoop env stop iteration rest c1
      | Thrown e c1 \<Rightarrow> Thrown e c1
      | Returned r c1 \<Rightarrow> Returned r c1)"

text \<open>
  The loop \<^verbatim>\<open>for (let iteration = 0; iteration < maxIterations; iteration++)\<close>. With
  \<open>Infinity\<close> for \<open>maxIterations\<close> it ends only by a \<open>return\<close> or a thrown value, so the
  result is optional: \<open>None\<close> is the run that never ends.
\<close>

partial_function (option) iterationsLoop ::
  "('n, 'w) env \<Rightarrow> (ModelResponse list \<Rightarrow> thrown + bool) option \<Rightarrow> number \<Rightarrow> nat
     \<Rightarrow> ('n, 'w) chain \<Rightarrow> ('n, 'w) outcome option" where
  "iterationsLoop env stop limit iteration c =
     (if below iteration limit
      then (case layersLoop env stop iteration [0..<length (configLayers c)] c of
              Continue c1 \<Rightarrow> iterationsLoop env stop limit (iteration + 1) c1
            | Thrown e c1 \<Rightarrow> Some (Thrown e c1)
            | Returned r c1 \<Rightarrow> Some (Returned r c1))
      else Some (Continue c))"

text \<open>
  The value of \<^verbatim>\<open>config.maxIterations || 1\<close>, and the variables of \<open>runMOAChain\<close> as they
  are before the \<open>try\<close> block.
\<close>

definition iterationLimit :: "'n MOAConfig \<Rightarrow> number" where
  "iterationLimit config =
     (case maxIterations config of
        None \<Rightarrow> Num 1
      | Some m \<Rightarrow> if falsyNumber m then Num 1 else m)"

definition initialChain :: "('n, 'w) env \<Rightarrow> 'n MOAConfig \<Rightarrow> string \<Rightarrow> 'w state \<Rightarrow> ('n, 'w) chain" where
  "initialChain env config initialInput s =
     \<lparr>configLayers = layers config, currentInput = initialInput, allResponses = [],
      queryContext = \<lparr>originalQuery = initialInput, timestamp = now env (world s),
                       currentIteration = 0\<rparr>,
      st = s\<rparr>"

text \<open>The \<open>try\<close> block of \<open>runMOAChain\<close>, up to the \<open>return\<close> after the loops.\<close>

definition runMOAChain_try ::
  "('n, 'w) env \<Rightarrow> 'n MOAConfig \<Rightarrow> string \<Rightarrow> 'w state \<Rightarrow> ('n, 'w) outcome option" where
  "runMOAChain_try env config initialInput s =
     iterationsLoop env (stopCriteria config) (iterationLimit config) 0
       (initialChain env config initialInput s)"

text \<open>
  \<open>runMOAChain\<close> returns its result, a response or a thrown value, and what the run has
  left behind, or it does not return. The handler builds the error response from the
  text of the caught value; where reading the caught value throws, nothing catches
  that.
\<close>

definition runMOAChain ::
  "('n, 'w) env \<Rightarrow> 'n MOAConfig \<Rightarrow> string \<Rightarrow> 'w state
     \<Rightarrow> ((thrown + ModelResponse) \<times> ('n, 'w) chain) option" where
  "runMOAChain env config initialInput s =
     (case runMOAChain_try env config initialInput s of
        None \<Rightarrow> None
      | Some (Thrown e c) \<Rightarrow>
          (case readThrown e of
             Inr txt \<Rightarrow>
               Some (Inr \<lparr>content = [], metadata = None,
                          error = Some (''Error in MOA chain: '' @ txt)\<rparr>, c)
           | Inl raised \<Rightarrow> Some (Inl raised, c))
      | Some (Returned aggregated c) \<Rightarrow> Some (Inr aggregated, c)
      | Some (Continue c) \<Rightarrow>
          Some (Inr \<lparr>content = currentInput c,
                     metadata = Some \<lparr>iterations = maxIterations config,
                                       totalResponses = length (allResponses c),
                                       finalResponseLength = length (currentInput c)\<rparr>,
                     error = None\<rparr>, c))"

section \<open>Notions of the specification\<close>

text \<open>
  A path lies within a directory when the segments of the directory are the first
  segments of the path.
\<close>

definition withinDirectory :: "string \<Rightarrow> string \<Rightarrow> bool" where
  "withinDirectory dir p = (take (length (segments dir)) (segments p) = segments dir)"

text \<open>
  Replacing a placeholder by a text, taken literally: the first occurrence of the
  placeholder gives way to the text as it is. \<open>expectedPrompt\<close> is the prompt that the
  specification describes: the template with \<open>{input}\<close> replaced by the current input and
  \<open>{previous_responses}\<close> by the contents of the prior responses, joined by newlines.
\<close>

definition replaceLiteral :: "string \<Rightarrow> string \<Rightarrow> string \<Rightarrow> string" where
  "replaceLiteral s placeholder txt =
     (case split_first placeholder s of
        None \<Rightarrow> s
      | Some (front, back) \<Rightarrow> front @ txt @ back)"

definition expectedPrompt :: "string \<Rightarrow> string \<Rightarrow> ModelResponse list \<Rightarrow> string" where
  "expectedPrompt promptContent input previousResponses =
     replaceLiteral (replaceLiteral promptContent ''{input}'' input)
       ''{previous_responses}'' (join ''\<newline>'' (map content previousResponses))"

text \<open>
  The prompt documents of the specification: a root element \<open>prompt\<close> that holds an
  optional \<open>system\<close> element and then an optional \<open>template\<close> element, each holding text
  and comments only, with text and comments (the white space of an indented file)
  around the elements and around the root.
\<close>

fun isElement :: "node \<Rightarrow> bool" where
  "isElement (Element n kids) = True"
| "isElement (Text txt) = False"
| "isElement (Comment txt) = False"

definition noElements :: "node list \<Rightarrow> bool" where
  "noElements ns = list_all (\<lambda>n. \<not> isElement n) ns"

definition kidsOf :: "node list option \<Rightarrow> node list" where
  "kidsOf kids = (case kids of None \<Rightarrow> [] | Some ns \<Rightarrow> ns)"

definition promptDocument ::
  "node list \<Rightarrow> node list \<Rightarrow> node list option \<Rightarrow> node list \<Rightarrow> node list option \<Rightarrow> node list
     \<Rightarrow> node list \<Rightarrow> node list" where
  "promptDocument front gap1 systemKids gap2 templateKids gap3 back =
     front
     @ [Element ''prompt''
          (gap1
           @ (case systemKids of None \<Rightarrow> [] | Some kids \<Rightarrow> [Element ''system'' kids])
           @ gap2
           @ (case templateKids of None \<Rightarrow> [] | Some kids \<Rightarrow> [Element ''template'' kids])
           @ gap3)]
     @ back"

text \<open>
  The passes over a layer that a run reaches. \<open>passReached env stop limit c0 iteration
  todo c\<close> says that the run that starts with the chain \<open>c0\<close> comes, in the iteration of
  that number and with the chain \<open>c\<close>, to the layers at the indices \<open>todo\<close>, the first of
  which is the pass about to be made.
\<close>

inductive passReached ::
  "('n, 'w) env \<Rightarrow> (ModelResponse list \<Rightarrow> thrown + bool) option \<Rightarrow> number \<Rightarrow> ('n, 'w) chain
     \<Rightarrow> nat \<Rightarrow> nat list \<Rightarrow> ('n, 'w) chain \<Rightarrow> bool"
  for env stop limit c0 where
  firstIteration:
    "below 0 limit \<Longrightarrow> passReached env stop limit c0 0 [0..<length (configLayers c0)] c0"
| nextLayer:
    "passReached env stop limit c0 iteration (i # rest) c \<Longrightarrow>
     layerPass env stop iteration i c = Continue c1 \<Longrightarrow>
     passReached env stop limit c0 iteration rest c1"
| nextIteration:
    "passReached env stop limit c0 iteration [] c \<Longrightarrow>
     below (iteration + 1) limit \<Longrightarrow>
     passReached env stop limit c0 (iteration + 1) [0..<length (configLayers c)] c"

section \<open>An example environment\<close>

text \<open>
  Two instances, the working directory \<open>/app\<close>, and one prompt document, found at
  \<open>/app/p.xml\<close> and at \<open>/tmp/app/p.xml\<close>, with the tree that the parser makes of it. The world is the list of the commands run so
  far; a model answers with its prompt. The examples do no arithmetic.
\<close>

definition exampleDocument :: "node list" where
  "exampleDocument =
     [Element ''prompt''
        [Text ''\<newline>  '', Element ''system'' [Text '' S ''],
         Text ''\<newline>  '', Element ''template'' [Text '' T {input} ''],
         Text ''\<newline>'']]"

definition exampleFile :: string where
  "exampleFile = ''<prompt>\<newline>  <system> S </system>\<newline>  <template> T {input} </template>\<newline></prompt>''"

definition exampleEnv :: "(unit, command list) env" where
  "exampleEnv =
     \<lparr>ollamaInstances =
        [\<lparr>uri = ''http://a:11434'', OllamaInstance.name = Some ''A'', priority = Some 1\<rparr>,
         \<lparr>uri = ''http://b:11434'', OllamaInstance.name = Some ''B'', priority = Some 1\<rparr>],
      SYNTHESIS_MODEL = ''ollama:qwen2.5-coder:7b-instruct-fp16'',
      cwd = ''/app'',
      existsSync = (\<lambda>w p. p = ''/app/p.xml'' \<or> p = ''/tmp/app/p.xml''),
      statSize = (\<lambda>w p. 76),
      readFileSync = (\<lambda>w p. Inr exampleFile),
      parseFromString =
        (\<lambda>txt. if txt = exampleFile then Inr exampleDocument else Inl (JsError ''ParseError'')),
      shell = (\<lambda>w c. (Inr (case c of OllamaRun u m p \<Rightarrow> p | LlmRun m p \<Rightarrow> p), w @ [c])),
      now = (\<lambda>w. ''2024-01-01T00:00:00.000Z''),
      raceWinner = (\<lambda>w. 0),
      toNumber = (\<lambda>txt. ()),
      multiply = (\<lambda>a b. ()),
      reciprocal = (\<lambda>n. ()),
      NaN = (),
      numberToString = (\<lambda>n. ''NaN'')\<rparr>"

definition exampleState :: "command list state" where
  "exampleState = \<lparr>currentInstanceIndex = 0, world = []\<rparr>"

definition exampleAgent :: "string \<Rightarrow> string \<Rightarrow> unit AgentConfig" where
  "exampleAgent modelName promptText =
     \<lparr>Agent.name = ''agent'', model = modelName, temperature = None,
      Agent.promptTemplate = promptText, Agent.systemPrompt = None, instanceUri = None\<rparr>"

definition exampleLayer :: "string \<Rightarrow> string \<Rightarrow> string option \<Rightarrow> unit Layer" where
  "exampleLayer modelName promptText strategyTemplate =
     \<lparr>Layer.name = ''layer'', agents = [exampleAgent modelName promptText],
      aggregationStrategy =
        \<lparr>method' = ''concatenate'', AggregationStrategy.promptTemplate = strategyTemplate,
         weights = None\<rparr>\<rparr>"

text \<open>
  Two layers, three iterations, and stop criteria that hold as soon as the history has
  an entry.
\<close>

definition exampleConfig :: "string \<Rightarrow> unit MOAConfig" where
  "exampleConfig modelName =
     \<lparr>layers = [exampleLayer modelName ''{input}'' None, exampleLayer modelName ''{input}'' None],
      maxIterations = Some (Num 3),
      stopCriteria = Some (\<lambda>history. Inr (history \<noteq> []))\<rparr>"

text \<open>
  A layer whose strategy refers to the prompt document, run for two iterations without
  stop criteria.
\<close>

definition referringConfig :: "unit MOAConfig" where
  "referringConfig =
     \<lparr>layers = [exampleLayer ''ollama:m'' ''{input}'' (Some ''p.xml'')],
      maxIterations = Some (Num 2),
      stopCriteria = None\<rparr>"




section \<open>Properties\<close>

text \<open>
  The definitions that the evaluation of an example unfolds.
\<close>

lemmas example_defs =
  exampleEnv_def exampleState_def exampleAgent_def exampleLayer_def exampleConfig_def
  exampleDocument_def exampleFile_def

lemmas run_defs =
  processLayer_def startAgent_def resumeAgent_def promiseAll_def contextualPrompt_def
  endsWith_def runModel_def
  runModel_try_def getNextInstance_def startsWith_def replace_def trim_def is_space_def

lemmas xml_defs =
  readXMLPrompt_def path_resolve_def segments_def includes_str_def startsWith_def
  trim_def is_space_def

subsection \<open>Instance selection\<close>

lemma calls_cursor:
  "ollamaInstances env \<noteq> [] \<Longrightarrow> currentInstanceIndex s = 0 \<Longrightarrow>
   currentInstanceIndex (calls env s n) = n mod length (ollamaInstances env)"
proof (induction n)
  case 0
  then show ?case by simp
next
  case (Suc n)
  then show ?case by (simp add: getNextInstance_def mod_Suc_eq)
qed

text \<open>
  C6. With K \<ge> 1 endpoints and the cursor starting at 0, call number n returns endpoint
  (n - 1) mod K, so calls 1 and K + 1 both return the first endpoint; with no endpoint
  configured every call returns the localhost fallback, whatever the cursor, and leaves
  the state as it is.
\<close>

theorem getNextInstance_round_robin:
  "(ollamaInstances env \<noteq> [] \<and> currentInstanceIndex s = 0 \<and> 0 < n \<longrightarrow>
      nth_call env s n = Some (ollamaInstances env ! ((n - 1) mod length (ollamaInstances env)))
      \<and> nth_call env s 1 = Some (ollamaInstances env ! 0)
      \<and> nth_call env s (length (ollamaInstances env) + 1) = Some (ollamaInstances env ! 0))
   \<and> (ollamaInstances env = [] \<longrightarrow>
        getNextInstance env s
          = (Some \<lparr>uri = ''http://localhost:11434'', OllamaInstance.name = None, priority = None\<rparr>, s))"
proof -
  have nth: "nth_call env s m = Some (ollamaInstances env ! ((m - 1) mod length (ollamaInstances env)))"
    if "ollamaInstances env \<noteq> []" "currentInstanceIndex s = 0" for m
    using that by (simp add: nth_call_def calls_cursor getNextInstance_def)
  show ?thesis
    using nth [of n] nth [of 1] nth [of "length (ollamaInstances env) + 1"]
    by (simp add: getNextInstance_def)
qed

text \<open>
  With the two instances of the example, call 3 returns the first one again and call 2
  the second one; without instances the fallback is returned.
\<close>

theorem getNextInstance_round_robin_witness:
  "nth_call exampleEnv exampleState 3
     = Some \<lparr>uri = ''http://a:11434'', OllamaInstance.name = Some ''A'', priority = Some 1\<rparr>
   \<and> nth_call exampleEnv exampleState 2
     = Some \<lparr>uri = ''http://b:11434'', OllamaInstance.name = Some ''B'', priority = Some 1\<rparr>
   \<and> getNextInstance (exampleEnv\<lparr>ollamaInstances := []\<rparr>) exampleState
     = (Some \<lparr>uri = ''http://localhost:11434'', OllamaInstance.name = None, priority = None\<rparr>,
        exampleState)"
proof -
  have m3: "(3 - 1) mod length [a, b] = (0::nat)" for a b :: OllamaInstance
    by (simp add: numeral_2_eq_2)
  have m2: "(2 - 1) mod length [a, b] = (1::nat)" for a b :: OllamaInstance
    by simp
  show ?thesis
    using getNextInstance_round_robin [of exampleEnv exampleState 3]
          getNextInstance_round_robin [of exampleEnv exampleState 2]
          getNextInstance_round_robin [of "exampleEnv\<lparr>ollamaInstances := []\<rparr>" exampleState 1]
    unfolding exampleEnv_def exampleState_def env.simps state.simps m3 m2 by simp
qed

subsection \<open>Calling a model\<close>

lemma trim_idem: "trim (trim s) = trim s"
proof -
  define u where "u = dropWhile is_space s"
  define v where "v = dropWhile is_space (rev u)"
  have t: "trim s = rev v" by (simp add: trim_def u_def v_def)
  have a: "dropWhile is_space (rev v) = rev v"
  proof (cases "v = []")
    case True
    then show ?thesis by simp
  next
    case False
    then have "rev u \<noteq> []" by (auto simp: v_def)
    then have un: "u \<noteq> []" by simp
    then have hu: "\<not> is_space (hd u)" unfolding u_def by (rule hd_dropWhile)
    obtain ws where ws: "rev u = ws @ v"
      unfolding v_def by (metis takeWhile_dropWhile_id)
    from False ws have "last v = last (rev u)" by simp
    also have "\<dots> = hd u" using un by (simp add: last_rev)
    finally have "\<not> is_space (hd (rev v))" using hu False by (simp add: hd_rev)
    then show ?thesis using False by (cases "rev v") auto
  qed
  have b: "dropWhile is_space v = v" by (simp add: v_def)
  show ?thesis unfolding t by (simp add: trim_def a b)
qed

lemma runModel_try_response:
  "runModel_try env agent prompt s = (Inr r, s') \<Longrightarrow>
   error r = None \<and> content r \<noteq> [] \<and> trim (content r) = content r"
  by (auto simp: runModel_try_def Let_def trim_idem
           split: prod.splits sum.splits option.splits if_splits)

lemma runModel_response:
  "runModel env agent prompt s = (Inr r, s') \<Longrightarrow>
   error r = None \<and> content r \<noteq> [] \<and> trim (content r) = content r"
  by (auto simp: runModel_def split: prod.splits sum.splits dest: runModel_try_response)

text \<open>
  Every response that \<open>processLayer\<close> collects was returned by \<open>runModel\<close>, whether
  the agent went into \<open>runModel\<close> at once or after reading its document.
\<close>

lemma startAgent_settled:
  "startAgent env input previousResponses agent s = (Settled (Inr r), s') \<Longrightarrow> error r = None"
  by (auto simp: startAgent_def split: prod.splits option.splits if_splits
           dest: runModel_response)

lemma resumeAgent_response:
  "resumeAgent env input previousResponses agent p s = (Inr r, s') \<Longrightarrow>
   (\<forall>r0. p = Settled (Inr r0) \<longrightarrow> error r0 = None) \<Longrightarrow> error r = None"
  by (auto simp: resumeAgent_def split: pending.splits sum.splits dest: runModel_response)

lemma startAgents_settled:
  "startAgents env input previousResponses as s = (started, s') \<Longrightarrow>
   \<forall>(agent, p) \<in> set started. \<forall>r. p = Settled (Inr r) \<longrightarrow> error r = None"
proof (induction as arbitrary: s started s')
  case Nil
  then show ?case by simp
next
  case (Cons a as)
  then show ?case
    by (fastforce split: prod.splits dest: startAgent_settled)
qed

lemma resumeAgents_responses:
  "resumeAgents env input previousResponses started s = (results, s') \<Longrightarrow>
   \<forall>(agent, p) \<in> set started. \<forall>r. p = Settled (Inr r) \<longrightarrow> error r = None \<Longrightarrow>
   \<forall>r \<in> set (fulfilments results). error r = None"
proof (induction env input previousResponses started s arbitrary: results s'
         rule: resumeAgents.induct)
  case (1 env input previousResponses s)
  then show ?case by simp
next
  case (2 env input previousResponses agent p rest s)
  obtain result s1 where r: "resumeAgent env input previousResponses agent p s = (result, s1)"
    by (cases "resumeAgent env input previousResponses agent p s")
  obtain others s2 where o: "resumeAgents env input previousResponses rest s1 = (others, s2)"
    by (cases "resumeAgents env input previousResponses rest s1")
  have res: "results = result # others"
    using "2.prems"(1) r o by simp
  have tail: "\<forall>r \<in> set (fulfilments others). error r = None"
    using "2.IH" [OF r [symmetric] o] "2.prems"(2) by simp
  show ?case
  proof (cases result)
    case (Inl e)
    then show ?thesis using res tail by simp
  next
    case (Inr r0)
    have "error r0 = None"
      using resumeAgent_response [of env input previousResponses agent p s r0 s1]
            r Inr "2.prems"(2) by simp
    then show ?thesis using res tail Inr by simp
  qed
qed

lemma promiseAll_fulfilled:
  "promiseAll env w results = Inr rs \<Longrightarrow> rs = fulfilments results"
  by (simp add: promiseAll_def split: list.splits)

lemma processLayer_errors:
  assumes "processLayer env layer input previousResponses qc s = (Inr rs, s')"
  shows "layerErrors rs = []"
proof -
  obtain started s1 where a: "startAgents env input previousResponses (agents layer) s = (started, s1)"
    by (cases "startAgents env input previousResponses (agents layer) s")
  obtain results s2 where b: "resumeAgents env input previousResponses started s1 = (results, s2)"
    by (cases "resumeAgents env input previousResponses started s1")
  have "promiseAll env (world s2) results = Inr rs"
    using assms by (auto simp: processLayer_def a b)
  then have "rs = fulfilments results"
    by (rule promiseAll_fulfilled)
  moreover have "\<forall>r \<in> set (fulfilments results). error r = None"
    using resumeAgents_responses [OF b startAgents_settled [OF a]] .
  ultimately show ?thesis
    by (simp add: layerErrors_def filter_empty_conv)
qed

lemma processLayer_queryContext:
  "processLayer env layer input previousResponses qc s
     = processLayer env layer input previousResponses qc' s"
  by (simp add: processLayer_def)

lemma example_processLayer:
  "processLayer exampleEnv (exampleLayer ''ollama:m'' ''{input}'' None) ''X'' [] qc exampleState
     = (Inr [\<lparr>content = ''X'', metadata = None, error = None\<rparr>],
        \<lparr>currentInstanceIndex = 0, world = [OllamaRun ''http://b:11434'' ''m'' ''X'']\<rparr>)"
  by (simp add: example_defs run_defs)

text \<open>
  C10. \<open>runModel\<close> returns a response only with the error field unset and the content
  not empty and trimmed; in every other case it throws. So no response that
  \<open>processLayer\<close> collects carries an error, the list of the layer's errors that
  \<open>runMOAChain\<close> computes is empty, and the branch that throws on it is never taken.
\<close>

theorem runModel_never_error_bearing:
  "(\<forall>r s'. runModel env agent prompt s = (Inr r, s') \<longrightarrow>
       error r = None \<and> content r \<noteq> [] \<and> trim (content r) = content r)
   \<and> (\<forall>rs s'. processLayer env layer input previousResponses qc s = (Inr rs, s') \<longrightarrow>
       layerErrors rs = [])"
  by (auto dest: runModel_response processLayer_errors)

text \<open>
  The model of the example answers \<open>X\<close>, and the layer of the example has no errors.
\<close>

theorem runModel_never_error_bearing_witness:
  "fst (runModel exampleEnv (exampleAgent ''ollama:m'' ''{input}'') ''X'' exampleState)
     = Inr \<lparr>content = ''X'', metadata = None, error = None\<rparr>
   \<and> layerErrors [\<lparr>content = ''X'', metadata = None, error = None\<rparr>] = []"
proof -
  have r: "runModel exampleEnv (exampleAgent ''ollama:m'' ''{input}'') ''X'' exampleState
             = (Inr \<lparr>content = ''X'', metadata = None, error = None\<rparr>,
                \<lparr>currentInstanceIndex = 1, world = [OllamaRun ''http://a:11434'' ''m'' ''X'']\<rparr>)"
    by (simp add: example_defs run_defs)
  show ?thesis
    using runModel_never_error_bearing
            [of exampleEnv "exampleAgent ''ollama:m'' ''{input}''" "''X''" exampleState
                "exampleLayer ''ollama:m'' ''{input}'' None" "''X''" "[]" undefined]
          r example_processLayer [of undefined]
    by simp
qed

subsection \<open>Substitution into the template\<close>

text \<open>
  Where the replacement holds no dollar sign, \<open>replace\<close> puts it in as it is, and the
  prompt of an agent is the prompt the specification describes.
\<close>

lemma getSubstitution_plain:
  "CHR ''$'' \<notin> set r \<Longrightarrow> getSubstitution m f b r = r"
  by (induction m f b r rule: getSubstitution.induct) auto

lemma replace_plain:
  "CHR ''$'' \<notin> set replacement \<Longrightarrow> replace s pattern replacement = replaceLiteral s pattern replacement"
  by (simp add: replace_def replaceLiteral_def getSubstitution_plain split: option.splits)

lemma set_join: "set (join sep xs) \<subseteq> set sep \<union> \<Union> (set ` set xs)"
  by (induction sep xs rule: join.induct) auto

lemma contextualPrompt_plain:
  assumes "CHR ''$'' \<notin> set input"
    and "\<forall>r \<in> set previousResponses. CHR ''$'' \<notin> set (content r)"
  shows "contextualPrompt promptContent input previousResponses
           = expectedPrompt promptContent input previousResponses"
proof -
  have "CHR ''$'' \<notin> set (join ''\<newline>'' (map content previousResponses))"
    using assms(2) set_join [of "''\<newline>''" "map content previousResponses"] by auto
  then show ?thesis
    by (simp add: contextualPrompt_def expectedPrompt_def replace_plain assms(1))
qed

text \<open>
  C5. The claim is that the prompt an agent is run with is its template with \<open>{input}\<close>
  replaced by the current input and \<open>{previous_responses}\<close> by the joined contents of
  the prior responses, for every input. The code calls \<open>replace\<close>, which reads dollar
  patterns in the replacement: with the template \<open>{input}\<close> and the input \<open>$$\<close> the
  model is run with the prompt \<open>$\<close>, where the claim gives \<open>$$\<close>.
\<close>

theorem contextualPrompt_reads_dollar_patterns:
  "processLayer exampleEnv (exampleLayer ''ollama:m'' ''{input}'' None) ''$$'' [] qc exampleState
     = (Inr [\<lparr>content = ''$'', metadata = None, error = None\<rparr>],
        \<lparr>currentInstanceIndex = 0, world = [OllamaRun ''http://b:11434'' ''m'' ''$'']\<rparr>)
   \<and> contextualPrompt ''{input}'' ''$$'' [] = ''$''
   \<and> expectedPrompt ''{input}'' ''$$'' [] = ''$$''"
  by (simp add: example_defs run_defs expectedPrompt_def replaceLiteral_def)

subsection \<open>Prompt documents\<close>

lemma getElementsByTagName_append:
  "getElementsByTagName tag (xs @ ys) = getElementsByTagName tag xs @ getElementsByTagName tag ys"
  by (induction tag xs rule: getElementsByTagName.induct) simp_all

lemma getElementsByTagName_noElements:
  "noElements ns \<Longrightarrow> getElementsByTagName tag ns = []"
  by (induction tag ns rule: getElementsByTagName.induct) (simp_all add: noElements_def)

lemma noElements_append: "noElements (xs @ ys) = (noElements xs \<and> noElements ys)"
  by (simp add: noElements_def)

lemma promptDocument_elements:
  assumes "noElements (front @ gap1 @ gap2 @ gap3 @ back)"
    and "noElements (kidsOf systemKids @ kidsOf templateKids)"
  shows "getElementsByTagName ''prompt''
           (promptDocument front gap1 systemKids gap2 templateKids gap3 back) \<noteq> []"
    and "getElementsByTagName ''system''
           (promptDocument front gap1 systemKids gap2 templateKids gap3 back)
         = (case systemKids of None \<Rightarrow> [] | Some kids \<Rightarrow> [Element ''system'' kids])"
    and "getElementsByTagName ''template''
           (promptDocument front gap1 systemKids gap2 templateKids gap3 back)
         = (case templateKids of None \<Rightarrow> [] | Some kids \<Rightarrow> [Element ''template'' kids])"
  using assms
  by (auto simp: promptDocument_def kidsOf_def getElementsByTagName_append noElements_append
                 getElementsByTagName_noElements split: option.splits)

text \<open>
  C7. For a file that passes the checks of path, existence and size and whose text the
  parser reads as a prompt document, \<open>readXMLPrompt\<close> returns the trimmed text of the
  \<open>template\<close> element as the template and the trimmed text of the \<open>system\<close> element
  as the system prompt; without a \<open>system\<close> element the system prompt is absent, and
  without a \<open>template\<close> element the function throws instead of returning.
\<close>

theorem readXMLPrompt_prompt_document:
  assumes "includes_str (path_resolve (cwd env) promptFile) (cwd env)"
    and "existsSync env w (path_resolve (cwd env) promptFile)"
    and "statSize env w (path_resolve (cwd env) promptFile) \<le> 1024 * 1024"
    and "readFileSync env w (path_resolve (cwd env) promptFile) = Inr fileContent"
    and "parseFromString env fileContent
           = Inr (promptDocument front gap1 systemKids gap2 templateKids gap3 back)"
    and "noElements (front @ gap1 @ gap2 @ gap3 @ back)"
    and "noElements (kidsOf systemKids @ kidsOf templateKids)"
  shows "readXMLPrompt env w promptFile =
           (case templateKids of
              None \<Rightarrow> Inl (JsError ''Invalid XML: missing <template> element'')
            | Some tkids \<Rightarrow>
                Inr \<lparr>XMLPrompt.systemPrompt =
                       (case systemKids of
                          None \<Rightarrow> None
                        | Some skids \<Rightarrow> Some (trim (descendantText skids))),
                     template = trim (descendantText tkids)\<rparr>)"
proof -
  let ?doc = "promptDocument front gap1 systemKids gap2 templateKids gap3 back"
  obtain p ps where p: "getElementsByTagName ''prompt'' ?doc = p # ps"
    using promptDocument_elements(1) [OF assms(6,7)] by (meson list.exhaust)
  note sys = promptDocument_elements(2) [OF assms(6,7)]
  note tmpl = promptDocument_elements(3) [OF assms(6,7)]
  have "readXMLPrompt env w promptFile =
          (case (case templateKids of None \<Rightarrow> [] | Some kids \<Rightarrow> [Element ''template'' kids]) of
             [] \<Rightarrow> Inl (JsError ''Invalid XML: missing <template> element'')
           | templateElement # templates \<Rightarrow>
               Inr \<lparr>XMLPrompt.systemPrompt =
                      (case (case systemKids of None \<Rightarrow> []
                             | Some kids \<Rightarrow> [Element ''system'' kids]) of
                         [] \<Rightarrow> None
                       | systemElement # systems \<Rightarrow> Some (trim (textContent systemElement))),
                    template =
                      (if trim (textContent templateElement) = [] then []
                       else trim (textContent templateElement))\<rparr>)"
    using assms(1-5) by (simp add: readXMLPrompt_def Let_def p sys tmpl cong: list.case_cong)
  then show ?thesis
    by (simp split: option.splits)
qed

text \<open>
  The document of the example, and a document without a \<open>template\<close> element.
\<close>

theorem readXMLPrompt_prompt_document_witness:
  "readXMLPrompt exampleEnv [] ''p.xml''
     = Inr \<lparr>XMLPrompt.systemPrompt = Some ''S'', template = ''T {input}''\<rparr>
   \<and> readXMLPrompt
       (exampleEnv\<lparr>parseFromString := (\<lambda>txt. Inr [Element ''prompt'' [Element ''system'' [Text ''S'']]])\<rparr>)
       [] ''p.xml''
     = Inl (JsError ''Invalid XML: missing <template> element'')"
proof -
  let ?env = "exampleEnv\<lparr>parseFromString :=
                 (\<lambda>txt. Inr [Element ''prompt'' [Element ''system'' [Text ''S'']]])\<rparr>"
  have h1: "includes_str (path_resolve (cwd exampleEnv) ''p.xml'') (cwd exampleEnv)"
    and h2: "existsSync exampleEnv [] (path_resolve (cwd exampleEnv) ''p.xml'')"
    and h3: "statSize exampleEnv [] (path_resolve (cwd exampleEnv) ''p.xml'') \<le> 1024 * 1024"
    and h4: "readFileSync exampleEnv [] (path_resolve (cwd exampleEnv) ''p.xml'') = Inr exampleFile"
    by (simp_all add: exampleEnv_def xml_defs)
  have h5: "parseFromString exampleEnv exampleFile
              = Inr (promptDocument [] [Text ''\<newline>  ''] (Some [Text '' S '']) [Text ''\<newline>  '']
                       (Some [Text '' T {input} '']) [Text ''\<newline>''] [])"
    by (simp add: exampleEnv_def exampleDocument_def promptDocument_def)
  have h6: "noElements ([] @ [Text ''\<newline>  ''] @ [Text ''\<newline>  ''] @ [Text ''\<newline>''] @ [])"
    and h7: "noElements (kidsOf (Some [Text '' S '']) @ kidsOf (Some [Text '' T {input} '']))"
    by (simp_all add: noElements_def kidsOf_def)
  have k1: "includes_str (path_resolve (cwd ?env) ''p.xml'') (cwd ?env)"
    and k2: "existsSync ?env [] (path_resolve (cwd ?env) ''p.xml'')"
    and k3: "statSize ?env [] (path_resolve (cwd ?env) ''p.xml'') \<le> 1024 * 1024"
    and k4: "readFileSync ?env [] (path_resolve (cwd ?env) ''p.xml'') = Inr exampleFile"
    by (simp_all add: exampleEnv_def xml_defs)
  have k5: "parseFromString ?env exampleFile
              = Inr (promptDocument [] [] (Some [Text ''S'']) [] None [] [])"
    by (simp add: promptDocument_def)
  have k6: "noElements ([] @ [] @ [] @ [] @ [])"
    and k7: "noElements (kidsOf (Some [Text ''S'']) @ kidsOf None)"
    by (simp_all add: noElements_def kidsOf_def)
  show ?thesis
    using readXMLPrompt_prompt_document [OF h1 h2 h3 h4 h5 h6 h7]
          readXMLPrompt_prompt_document [OF k1 k2 k3 k4 k5 k6 k7]
    by (simp add: trim_def is_space_def)
qed

lemma example_readXMLPrompt:
  "readXMLPrompt exampleEnv w ''p.xml''
     = Inr \<lparr>XMLPrompt.systemPrompt = Some ''S'', template = ''T {input}''\<rparr>"
  by (simp add: example_defs xml_defs)

lemma readXMLPrompt_guard:
  "readXMLPrompt env w promptFile = Inr xmlPrompt \<Longrightarrow>
   includes_str (path_resolve (cwd env) promptFile) (cwd env)"
  by (simp add: readXMLPrompt_def Let_def split: if_splits)

text \<open>
  C2. The claim is that a reference whose resolved path lies outside the working
  directory is rejected. The check of the code is
  \<^verbatim>\<open>resolvedPath.includes(process.cwd())\<close>, which asks whether the working directory
  occurs anywhere in the path: with the working directory \<open>/app\<close>, the path
  \<open>/tmp/app/p.xml\<close> resolves to itself, lies outside \<open>/app\<close>, and is read and returned.
\<close>

theorem readXMLPrompt_accepts_outside_path:
  "path_resolve (cwd exampleEnv) ''/tmp/app/p.xml'' = ''/tmp/app/p.xml''
   \<and> \<not> withinDirectory (cwd exampleEnv) ''/tmp/app/p.xml''
   \<and> readXMLPrompt exampleEnv w ''/tmp/app/p.xml''
       = Inr \<lparr>XMLPrompt.systemPrompt = Some ''S'', template = ''T {input}''\<rparr>"
  by (simp add: example_defs xml_defs withinDirectory_def)

subsection \<open>Aggregation\<close>

text \<open>
  C8. For every strategy, whatever its method, aggregating the empty list returns the
  response with the empty content and the error \<open>No responses to aggregate\<close>; the
  strategy and the state are as before, so no prompt document was read and no model
  was run.
\<close>

theorem aggregateResponses_empty:
  "aggregateResponses env [] strategy s =
     (Inr \<lparr>content = [], metadata = None, error = Some ''No responses to aggregate''\<rparr>, strategy, s)"
  by (simp add: aggregateResponses_def)

text \<open>
  The weighted branch appends the products as strings: with uniform weights over N
  responses of the same content it returns N copies of one numeral in a row.
\<close>

lemma weightedReduce_append:
  "weightedReduce env ws i acc cs =
     acc @ concat (map (\<lambda>(j, c). numberToString env
                          (multiply env (toNumber env c) (if j < length ws then ws ! j else NaN env)))
                     (zip [i..<i + length cs] cs))"
proof (induction cs arbitrary: i acc)
  case Nil
  then show ?case by simp
next
  case (Cons c cs)
  have "[i..<i + length (c # cs)] = i # [i + 1..<(i + 1) + length cs]"
    by (simp add: upt_rec)
  then show ?case
    by (simp add: Cons.IH)
qed

lemma weighted_uniform:
  "fst (aggregateResponses env (replicate (Suc n) \<lparr>content = v, metadata = None, error = None\<rparr>)
          \<lparr>method' = ''weighted'', AggregationStrategy.promptTemplate = None, weights = None\<rparr> s)
   = Inr \<lparr>content = concat (replicate (Suc n)
                      (numberToString env
                         (multiply env (toNumber env (trim v)) (reciprocal env (Suc n))))),
          metadata = None, error = None\<rparr>"
proof -
  define N where "N = Suc n"
  define x where "x = reciprocal env N"
  define t where "t = numberToString env (multiply env (toNumber env (trim v)) x)"
  have "map (\<lambda>(j, c). numberToString env
              (multiply env (toNumber env c)
                 (if j < length (replicate N x) then replicate N x ! j else NaN env)))
          (zip [0..<0 + length (replicate N (trim v))] (replicate N (trim v)))
          = replicate N t"
    by (rule nth_equalityI) (simp_all add: t_def)
  then have "weightedReduce env (replicate N x) 0 [] (replicate N (trim v))
               = concat (replicate N t)"
    by (simp only: weightedReduce_append append_Nil)
  then show ?thesis
    unfolding N_def [symmetric]
    by (simp add: aggregateResponses_def map_replicate_const N_def [symmetric] x_def t_def
                  map_replicate)
       (simp add: N_def)
qed

text \<open>
  C1. The claim is that weighted aggregation with uniform weights over N responses of
  the same numeric string \<open>v\<close> returns \<open>v\<close>. For two responses \<open>4\<close> the code returns the
  numeral of \<open>4 * (1 / 2)\<close> written twice, which is \<open>22\<close> in JavaScript, and whatever
  the numeral is, a string written twice is not the string \<open>4\<close>.
\<close>

theorem aggregateResponses_weighted_concatenates:
  "fst (aggregateResponses env
          [\<lparr>content = ''4'', metadata = None, error = None\<rparr>,
           \<lparr>content = ''4'', metadata = None, error = None\<rparr>]
          \<lparr>method' = ''weighted'', AggregationStrategy.promptTemplate = None, weights = None\<rparr> s)
   = Inr \<lparr>content = numberToString env (multiply env (toNumber env ''4'') (reciprocal env 2))
                     @ numberToString env (multiply env (toNumber env ''4'') (reciprocal env 2)),
          metadata = None, error = None\<rparr>
   \<and> numberToString env (multiply env (toNumber env ''4'') (reciprocal env 2))
       @ numberToString env (multiply env (toNumber env ''4'') (reciprocal env 2)) \<noteq> ''4''"
proof
  show "fst (aggregateResponses env
          [\<lparr>content = ''4'', metadata = None, error = None\<rparr>,
           \<lparr>content = ''4'', metadata = None, error = None\<rparr>]
          \<lparr>method' = ''weighted'', AggregationStrategy.promptTemplate = None, weights = None\<rparr> s)
   = Inr \<lparr>content = numberToString env (multiply env (toNumber env ''4'') (reciprocal env 2))
                     @ numberToString env (multiply env (toNumber env ''4'') (reciprocal env 2)),
          metadata = None, error = None\<rparr>"
    by (simp add: aggregateResponses_def trim_def is_space_def numeral_2_eq_2)
next
  let ?s = "numberToString env (multiply env (toNumber env ''4'') (reciprocal env 2))"
  have "length (?s @ ?s) \<noteq> length ''4''"
    by simp presburger
  then show "?s @ ?s \<noteq> ''4''"
    by metis
qed

subsection \<open>The strategy of a layer over a run\<close>

text \<open>
  What a call of \<open>aggregateResponses\<close> does to the strategy, and what a pass over a
  layer does to the layers of the configuration.
\<close>

lemma aggregateResponses_frame:
  assumes "aggregateResponses env responses strategy s = (result, strategy', s')"
  shows "method' strategy' = method' strategy \<and> weights strategy' = weights strategy
     \<and> (strategy' =
          (case AggregationStrategy.promptTemplate strategy of
             None \<Rightarrow> strategy
           | Some reference \<Rightarrow>
               if responses \<noteq> [] \<and> endsWith reference ''.xml''
               then (case readXMLPrompt env (world s) reference of
                       Inl e \<Rightarrow> strategy
                     | Inr xmlPrompt \<Rightarrow>
                         strategy\<lparr>AggregationStrategy.promptTemplate := Some (template xmlPrompt)\<rparr>)
               else strategy))"
  using assms
  by (auto simp: aggregateResponses_def Let_def
           split: if_splits option.splits sum.splits prod.splits list.splits)

lemma layerPass_writes_back:
  assumes "i < length (configLayers c)"
    and "layerPass env stop iteration i c = Continue c1
         \<or> layerPass env stop iteration i c = Returned returned c1"
  shows "\<exists>layerResponses s1 aggregated s2.
           processLayer env (configLayers c ! i) (currentInput c) (allResponses c)
               ((queryContext c)\<lparr>currentIteration := iteration\<rparr>) (st c)
             = (Inr layerResponses, s1)
         \<and> aggregateResponses env layerResponses (aggregationStrategy (configLayers c ! i)) s1
             = (Inr aggregated, aggregationStrategy (configLayers c1 ! i), s2)
         \<and> configLayers c1
             = (configLayers c)
                 [i := (configLayers c ! i)
                         \<lparr>aggregationStrategy := aggregationStrategy (configLayers c1 ! i)\<rparr>]"
  using assms
  by (auto simp: layerPass_def Let_def
           split: prod.splits sum.splits list.splits option.splits bool.splits)

text \<open>
  C4, as amended. An aggregation call never changes the method or the weights of the
  strategy. It leaves the strategy as it was when the list of responses is empty, when
  \<open>promptTemplate\<close> is absent or does not end in \<open>.xml\<close>, or when resolving the reference
  throws; when \<open>promptTemplate\<close> ends in \<open>.xml\<close> and resolves, the call writes the template
  text of the document over it. A pass of the chain over a layer that comes to its end
  or to the \<open>return\<close> of the stop criteria has aggregated with the strategy that the
  configuration held at the index of the layer, and leaves there the strategy as the
  aggregation returned it, with every other layer as it was: the next pass over the
  layer aggregates with the strategy so written.
\<close>

theorem aggregateResponses_strategy_frame:
  "(aggregateResponses env responses strategy s = (result, strategy', s') \<longrightarrow>
      method' strategy' = method' strategy \<and> weights strategy' = weights strategy
      \<and> strategy' =
          (case AggregationStrategy.promptTemplate strategy of
             None \<Rightarrow> strategy
           | Some reference \<Rightarrow>
               if responses \<noteq> [] \<and> endsWith reference ''.xml''
               then (case readXMLPrompt env (world s) reference of
                       Inl e \<Rightarrow> strategy
                     | Inr xmlPrompt \<Rightarrow>
                         strategy\<lparr>AggregationStrategy.promptTemplate := Some (template xmlPrompt)\<rparr>)
               else strategy))
   \<and> (i < length (configLayers c)
       \<and> (layerPass env stop iteration i c = Continue c1
          \<or> layerPass env stop iteration i c = Returned returned c1) \<longrightarrow>
       (\<exists>layerResponses s1 aggregated s2.
           processLayer env (configLayers c ! i) (currentInput c) (allResponses c)
               ((queryContext c)\<lparr>currentIteration := iteration\<rparr>) (st c)
             = (Inr layerResponses, s1)
         \<and> aggregateResponses env layerResponses (aggregationStrategy (configLayers c ! i)) s1
             = (Inr aggregated, aggregationStrategy (configLayers c1 ! i), s2)
         \<and> configLayers c1
             = (configLayers c)
                 [i := (configLayers c ! i)
                         \<lparr>aggregationStrategy := aggregationStrategy (configLayers c1 ! i)\<rparr>]))"
  using aggregateResponses_frame [of env responses strategy s result strategy' s']
        layerPass_writes_back [of i c env stop iteration c1 returned]
  by blast

text \<open>
  The strategy of the example refers to \<open>p.xml\<close> before the call and holds the text of
  its template after it; after the first pass of a run over that layer the configuration
  holds the text, and the pass of the second iteration starts from it.
\<close>

lemma example_referring_pass:
  "layerPass exampleEnv None 0 0 (initialChain exampleEnv referringConfig ''X'' exampleState)
     = Continue
         \<lparr>configLayers = [exampleLayer ''ollama:m'' ''{input}'' (Some ''T {input}'')],
          currentInput = ''X'',
          allResponses = [\<lparr>content = ''X'', metadata = None, error = None\<rparr>],
          queryContext = \<lparr>originalQuery = ''X'', timestamp = ''2024-01-01T00:00:00.000Z'',
                           currentIteration = 0\<rparr>,
          st = \<lparr>currentInstanceIndex = 0, world = [OllamaRun ''http://b:11434'' ''m'' ''X'']\<rparr>\<rparr>"
proof -
  have l: "exampleLayer ''ollama:m'' ''{input}'' (Some ''p.xml'')
             = (exampleLayer ''ollama:m'' ''{input}'' None)
                 \<lparr>aggregationStrategy :=
                    \<lparr>method' = ''concatenate'', AggregationStrategy.promptTemplate = Some ''p.xml'',
                     weights = None\<rparr>\<rparr>"
    by (simp add: exampleLayer_def)
  have p: "processLayer exampleEnv (exampleLayer ''ollama:m'' ''{input}'' (Some ''p.xml'')) ''X'' []
             qc exampleState
     = (Inr [\<lparr>content = ''X'', metadata = None, error = None\<rparr>],
        \<lparr>currentInstanceIndex = 0, world = [OllamaRun ''http://b:11434'' ''m'' ''X'']\<rparr>)" for qc
    using example_processLayer [of qc] by (simp add: processLayer_def exampleLayer_def)
  have a: "aggregateResponses exampleEnv [\<lparr>content = ''X'', metadata = None, error = None\<rparr>]
             \<lparr>method' = ''concatenate'', AggregationStrategy.promptTemplate = Some ''p.xml'',
              weights = None\<rparr> s
           = (Inr \<lparr>content = ''X'', metadata = None, error = None\<rparr>,
              \<lparr>method' = ''concatenate'', AggregationStrategy.promptTemplate = Some ''T {input}'',
               weights = None\<rparr>, s)" for s :: "command list state"
    by (simp add: aggregateResponses_def endsWith_def example_readXMLPrompt trim_def is_space_def)
  have n: "now exampleEnv w = ''2024-01-01T00:00:00.000Z''" for w
    by (simp add: exampleEnv_def)
  show ?thesis
    by (simp add: layerPass_def Let_def initialChain_def referringConfig_def p layerErrors_def n)
       (simp add: exampleLayer_def a)
qed

theorem aggregateResponses_strategy_frame_witness:
  "fst (snd (aggregateResponses exampleEnv [\<lparr>content = ''a'', metadata = None, error = None\<rparr>]
               \<lparr>method' = ''concatenate'', AggregationStrategy.promptTemplate = Some ''p.xml'',
                weights = None\<rparr> exampleState))
     = \<lparr>method' = ''concatenate'', AggregationStrategy.promptTemplate = Some ''T {input}'',
        weights = None\<rparr>
   \<and> layerPass exampleEnv None 0 0 (initialChain exampleEnv referringConfig ''X'' exampleState)
     = Continue
         \<lparr>configLayers = [exampleLayer ''ollama:m'' ''{input}'' (Some ''T {input}'')],
          currentInput = ''X'',
          allResponses = [\<lparr>content = ''X'', metadata = None, error = None\<rparr>],
          queryContext = \<lparr>originalQuery = ''X'', timestamp = ''2024-01-01T00:00:00.000Z'',
                           currentIteration = 0\<rparr>,
          st = \<lparr>currentInstanceIndex = 0, world = [OllamaRun ''http://b:11434'' ''m'' ''X'']\<rparr>\<rparr>"
proof -
  obtain result strategy' s' where e:
    "aggregateResponses exampleEnv [\<lparr>content = ''a'', metadata = None, error = None\<rparr>]
       \<lparr>method' = ''concatenate'', AggregationStrategy.promptTemplate = Some ''p.xml'',
        weights = None\<rparr> exampleState = (result, strategy', s')"
    by (metis prod_cases3)
  have first: "fst (snd (aggregateResponses exampleEnv
                  [\<lparr>content = ''a'', metadata = None, error = None\<rparr>]
                  \<lparr>method' = ''concatenate'', AggregationStrategy.promptTemplate = Some ''p.xml'',
                   weights = None\<rparr> exampleState))
     = \<lparr>method' = ''concatenate'', AggregationStrategy.promptTemplate = Some ''T {input}'',
        weights = None\<rparr>"
    using aggregateResponses_strategy_frame
            [of exampleEnv "[\<lparr>content = ''a'', metadata = None, error = None\<rparr>]"
                "\<lparr>method' = ''concatenate'', AggregationStrategy.promptTemplate = Some ''p.xml'',
                  weights = None\<rparr>" exampleState result strategy' s']
    by (simp add: e example_readXMLPrompt endsWith_def)
  show ?thesis
    using first example_referring_pass by simp
qed

lemma example_referring_second_pass:
  "passReached exampleEnv None (Num 2) (initialChain exampleEnv referringConfig ''X'' exampleState)
     1 [0]
     \<lparr>configLayers = [exampleLayer ''ollama:m'' ''{input}'' (Some ''T {input}'')],
      currentInput = ''X'',
      allResponses = [\<lparr>content = ''X'', metadata = None, error = None\<rparr>],
      queryContext = \<lparr>originalQuery = ''X'', timestamp = ''2024-01-01T00:00:00.000Z'',
                       currentIteration = 0\<rparr>,
      st = \<lparr>currentInstanceIndex = 0, world = [OllamaRun ''http://b:11434'' ''m'' ''X'']\<rparr>\<rparr>"
proof -
  let ?c0 = "initialChain exampleEnv referringConfig ''X'' exampleState"
  let ?c1 = "\<lparr>configLayers = [exampleLayer ''ollama:m'' ''{input}'' (Some ''T {input}'')],
      currentInput = ''X'',
      allResponses = [\<lparr>content = ''X'', metadata = None, error = None\<rparr>],
      queryContext = \<lparr>originalQuery = ''X'', timestamp = ''2024-01-01T00:00:00.000Z'',
                       currentIteration = 0\<rparr>,
      st = \<lparr>currentInstanceIndex = 0, world = [OllamaRun ''http://b:11434'' ''m'' ''X'']\<rparr>\<rparr>"
  have "passReached exampleEnv None (Num 2) ?c0 0 [0..<length (configLayers ?c0)] ?c0"
    by (rule passReached.firstIteration) simp
  then have "passReached exampleEnv None (Num 2) ?c0 0 (0 # []) ?c0"
    by (simp add: initialChain_def referringConfig_def)
  then have "passReached exampleEnv None (Num 2) ?c0 0 [] ?c1"
    using example_referring_pass by (rule passReached.nextLayer)
  then have "passReached exampleEnv None (Num 2) ?c0 (0 + 1) [0..<length (configLayers ?c1)] ?c1"
    by (rule passReached.nextIteration) simp
  then show ?thesis by simp
qed

text \<open>
  C4, as stated, fails: after this call the strategy is not the strategy of before.
\<close>

theorem aggregateResponses_writes_strategy:
  "fst (snd (aggregateResponses exampleEnv [\<lparr>content = ''a'', metadata = None, error = None\<rparr>]
               \<lparr>method' = ''concatenate'', AggregationStrategy.promptTemplate = Some ''p.xml'',
                weights = None\<rparr> exampleState))
     \<noteq> \<lparr>method' = ''concatenate'', AggregationStrategy.promptTemplate = Some ''p.xml'',
         weights = None\<rparr>"
proof -
  have "readXMLPrompt exampleEnv [] ''p.xml''
          = Inr \<lparr>XMLPrompt.systemPrompt = Some ''S'', template = ''T {input}''\<rparr>"
    by (simp add: example_defs xml_defs)
  then show ?thesis
    by (simp add: aggregateResponses_def endsWith_def exampleState_def)
qed

subsection \<open>The chain\<close>

lemma example_aggregate:
  "aggregateResponses exampleEnv [\<lparr>content = ''X'', metadata = None, error = None\<rparr>]
      (aggregationStrategy (exampleLayer ''ollama:m'' ''{input}'' None)) s
     = (Inr \<lparr>content = ''X'', metadata = None, error = None\<rparr>,
        aggregationStrategy (exampleLayer ''ollama:m'' ''{input}'' None), s)"
  by (simp add: aggregateResponses_def example_defs trim_def is_space_def)

lemma layerPass_stop:
  assumes "i < length (configLayers c)"
    and "processLayer env (configLayers c ! i) (currentInput c) (allResponses c) qc (st c)
           = (Inr layerResponses, s1)"
    and "aggregateResponses env layerResponses (aggregationStrategy (configLayers c ! i)) s1
           = (Inr aggregated, strategy', s2)"
    and "criteria (allResponses c @ [aggregated]) = Inr True"
  shows "\<exists>c'. layerPass env (Some criteria) iteration i c = Returned aggregated c'
              \<and> allResponses c' = allResponses c @ [aggregated]
              \<and> currentInput c' = content aggregated \<and> st c' = s2"
proof -
  have p: "processLayer env (configLayers c ! i) (currentInput c) (allResponses c)
             ((queryContext c)\<lparr>currentIteration := iteration\<rparr>) (st c) = (Inr layerResponses, s1)"
    using assms(2) processLayer_queryContext by metis
  have e: "layerErrors layerResponses = []"
    using assms(2) by (rule processLayer_errors)
  show ?thesis
    by (simp add: layerPass_def Let_def p e assms(3) assms(4))
qed

lemma loop_entered:
  "\<forall>m. maxIterations config = Some m \<longrightarrow> m \<noteq> NegInfinity \<and> (\<forall>q. m = Num q \<longrightarrow> 0 \<le> q) \<Longrightarrow>
   below 0 (iterationLimit config)"
  by (cases "maxIterations config"; cases "the (maxIterations config)")
     (auto simp: iterationLimit_def)

text \<open>
  C9. When the first layer is processed and aggregated and the stop criteria hold for
  the history of that one aggregate, \<open>runMOAChain\<close> returns the aggregate; the history
  has length 1 and the state is the state right after the aggregation, so no other
  layer and no other iteration has run, whatever the rest of the configuration.
  The loop is entered when \<open>maxIterations\<close> is not negative.
\<close>

theorem stop_after_first_aggregate:
  assumes "layers config = layer # rest"
    and "\<forall>m. maxIterations config = Some m \<longrightarrow> m \<noteq> NegInfinity \<and> (\<forall>q. m = Num q \<longrightarrow> 0 \<le> q)"
    and "processLayer env layer initialInput [] qc s = (Inr layerResponses, s1)"
    and "aggregateResponses env layerResponses (aggregationStrategy layer) s1
           = (Inr aggregated, strategy', s2)"
    and "stopCriteria config = Some criteria"
    and "criteria [aggregated] = Inr True"
  shows "\<exists>c. runMOAChain env config initialInput s = Some (Inr aggregated, c)
             \<and> allResponses c = [aggregated] \<and> length (allResponses c) = 1
             \<and> currentInput c = content aggregated \<and> st c = s2"
proof -
  define c0 where "c0 = initialChain env config initialInput s"
  have enter: "below 0 (iterationLimit config)"
    using assms(2) by (rule loop_entered)
  have idx: "[0..<length (configLayers c0)] = 0 # [1..<length (configLayers c0)]"
    by (simp add: c0_def initialChain_def assms(1) upt_rec)
  obtain c' where pass: "layerPass env (Some criteria) 0 0 c0 = Returned aggregated c'"
    and c': "allResponses c' = [aggregated]" "currentInput c' = content aggregated" "st c' = s2"
    using layerPass_stop [of 0 c0 env qc layerResponses s1 aggregated strategy' s2 criteria 0]
          assms(3,4,6)
    by (auto simp: c0_def initialChain_def assms(1))
  have "runMOAChain_try env config initialInput s = Some (Returned aggregated c')"
    unfolding runMOAChain_try_def c0_def [symmetric]
    by (subst iterationsLoop.simps) (simp add: enter idx assms(5) pass)
  then show ?thesis
    by (simp add: runMOAChain_def c')
qed

text \<open>
  The configuration of the example has two layers and three iterations; one command
  is run.
\<close>

theorem stop_after_first_aggregate_witness:
  "\<exists>c. runMOAChain exampleEnv (exampleConfig ''ollama:m'') ''X'' exampleState
          = Some (Inr \<lparr>content = ''X'', metadata = None, error = None\<rparr>, c)
       \<and> allResponses c = [\<lparr>content = ''X'', metadata = None, error = None\<rparr>]
       \<and> st c = \<lparr>currentInstanceIndex = 0, world = [OllamaRun ''http://b:11434'' ''m'' ''X'']\<rparr>"
proof -
  have h1: "layers (exampleConfig ''ollama:m'')
              = exampleLayer ''ollama:m'' ''{input}'' None # [exampleLayer ''ollama:m'' ''{input}'' None]"
    by (simp add: exampleConfig_def)
  have h2: "\<forall>m. maxIterations (exampleConfig ''ollama:m'') = Some m \<longrightarrow>
              m \<noteq> NegInfinity \<and> (\<forall>q. m = Num q \<longrightarrow> 0 \<le> q)"
    by (auto simp: exampleConfig_def)
  have h5: "stopCriteria (exampleConfig ''ollama:m'') = Some (\<lambda>history. Inr (history \<noteq> []))"
    by (simp add: exampleConfig_def)
  have h6: "(\<lambda>history. Inr (history \<noteq> [])) [\<lparr>content = ''X'', metadata = None, error = None\<rparr>]
              = (Inr True :: thrown + bool)"
    by simp
  show ?thesis
    using stop_after_first_aggregate [OF h1 h2 example_processLayer example_aggregate h5 h6]
    by auto
qed










end
